theory Spec2Isabelle
  imports Complex_Main "HOL-Library.Sublist"
begin

section \<open>Values of the Go program\<close>

text \<open>
  Go strings are byte sequences, modelled as \<^typ>\<open>string\<close>. A \<open>float64\<close> is modelled by
  its exact mathematical value (every finite \<open>float64\<close> is a rational), with negative
  zero, the two infinities and NaN as values of their own. The program does no
  arithmetic on floats: it only decodes, parses and prints them.
\<close>

datatype float64 = Finite rat | NegZero | PosInf | NegInf | NaN

text \<open>
  The tree \<open>encoding/json\<close> decodes into \<open>interface{}\<close>: \<open>nil\<close>, \<open>bool\<close>, \<open>float64\<close>,
  \<open>string\<close>, \<open>[]interface{}\<close> and \<open>map[string]interface{}\<close>. A Go map is a partial
  function from keys to values; reading a missing key gives \<open>nil\<close>.
\<close>

datatype json =
    JNull
  | JBool bool
  | JNum float64
  | JStr string
  | JArr "json list"
  | JObj "string \<Rightarrow> json option"

type_synonym jmap = "string \<Rightarrow> json option"

text \<open>The Go \<open>error\<close> values of this program are modelled by their \<open>Error()\<close> text.\<close>

type_synonym error = string

abbreviation NL :: string where
  "NL \<equiv> [CHR 0x0A]"

subsection \<open>Type assertions\<close>

text \<open>
  \<open>v, ok := m[k].(T)\<close>: the argument is the result of the map lookup, \<open>None\<close> for a
  missing key. The assertion fails (\<open>None\<close>) on \<open>nil\<close> and on every other dynamic type.
\<close>

fun asMap :: "json option \<Rightarrow> jmap option" where
  "asMap (Some (JObj m)) = Some m"
| "asMap _ = None"

fun asList :: "json option \<Rightarrow> json list option" where
  "asList (Some (JArr xs)) = Some xs"
| "asList _ = None"

fun asString :: "json option \<Rightarrow> string option" where
  "asString (Some (JStr s)) = Some s"
| "asString _ = None"

fun asFloat :: "json option \<Rightarrow> float64 option" where
  "asFloat (Some (JNum x)) = Some x"
| "asFloat _ = None"

text \<open>\<open>v, _ := m[k].(T)\<close>: a failed assertion leaves the zero value of \<open>T\<close>.\<close>

definition stringOrZero :: "json option \<Rightarrow> string" where
  "stringOrZero v = (case asString v of Some s \<Rightarrow> s | None \<Rightarrow> [])"

definition floatOrZero :: "json option \<Rightarrow> float64" where
  "floatOrZero v = (case asFloat v of Some x \<Rightarrow> x | None \<Rightarrow> Finite 0)"

section \<open>The parts of the Go standard library the program calls\<close>

subsection \<open>\<open>strings.Join\<close>\<close>

fun strings_Join :: "string list \<Rightarrow> string \<Rightarrow> string" where
  "strings_Join [] sep = []"
| "strings_Join [a] sep = a"
| "strings_Join (a # b # rest) sep = a @ sep @ strings_Join (b # rest) sep"

subsection \<open>The verbs \<open>%d\<close>, \<open>%f\<close> and \<open>%.0f\<close> of \<open>fmt.Sprintf\<close>\<close>

definition digitChar :: "nat \<Rightarrow> char" where
  "digitChar d = ''0123456789'' ! d"

fun showNat :: "nat \<Rightarrow> string" where
  "showNat n = (if n < 10 then [digitChar n] else showNat (n div 10) @ [digitChar (n mod 10)])"

declare showNat.simps [simp del]

definition showInt :: "int \<Rightarrow> string" where
  "showInt i = (if i < 0 then CHR ''-'' # showNat (nat (- i)) else showNat (nat i))"

text \<open>
  Rounding to the nearest integer, ties to the even one: what \<open>strconv\<close> does to the
  exact decimal expansion of a float when it cuts it at a given precision.
\<close>

definition roundHalfEven :: "rat \<Rightarrow> int" where
  "roundHalfEven x =
     (let f = \<lfloor>x\<rfloor>; r = x - of_int f
      in if r < 1 / 2 then f
         else if 1 / 2 < r then f + 1
         else if even f then f else f + 1)"

text \<open>
  \<open>%.<prec>f\<close>: an optional minus sign (the sign bit, so also for negative zero and for
  values that round to zero), the integer digits, and \<open>prec\<close> fraction digits after a
  point when \<open>prec\<close> is positive. \<open>%f\<close> is precision 6.
\<close>

definition fmtDigits :: "nat \<Rightarrow> nat \<Rightarrow> string" where
  "fmtDigits prec n =
     showNat (n div 10 ^ prec) @
     (if prec = 0 then []
      else CHR ''.'' # replicate (prec - length (showNat (n mod 10 ^ prec))) CHR ''0''
             @ showNat (n mod 10 ^ prec))"

fun fmtFloat :: "nat \<Rightarrow> float64 \<Rightarrow> string" where
  "fmtFloat prec (Finite x) =
     (if x < 0 then ''-'' else []) @ fmtDigits prec (nat (roundHalfEven (\<bar>x\<bar> * 10 ^ prec)))"
| "fmtFloat prec NegZero = ''-'' @ fmtDigits prec 0"
| "fmtFloat prec PosInf = ''+Inf''"
| "fmtFloat prec NegInf = ''-Inf''"
| "fmtFloat prec NaN = ''NaN''"

section \<open>The upstream\<close>

text \<open>
  What an HTTP round trip gives back: the status code and the result of reading the
  body (\<open>io.ReadAll\<close>), which can fail after the header has arrived.
\<close>

record response =
  StatusCode :: int
  Body :: "error + string"

record GeocodingResult =
  Lat :: string
  Lon :: string

text \<open>
  Everything outside the program, taken as given:
  \<^item> \<open>roundTrip\<close>: \<open>http.NewRequest\<close> followed by \<open>client.Do\<close> for a GET of the URL, that
    is the (stubbed) upstream; \<open>Inl\<close> is the error of either call;
  \<^item> \<open>unmarshalObject\<close>: \<open>json.Unmarshal\<close> of a body into a \<open>map[string]interface{}\<close>;
  \<^item> \<open>unmarshalResults\<close>: \<open>json.Unmarshal\<close> of a body into a \<open>[]GeocodingResult\<close>;
  \<^item> \<open>parseFloat\<close>: \<open>strconv.ParseFloat(s, 64)\<close>;
  \<^item> \<open>queryEscape\<close>: \<open>url.QueryEscape\<close>, which \<open>url.Values.Encode\<close> applies to every key
    and value.
\<close>

record platform =
  roundTrip :: "string \<Rightarrow> error + response"
  unmarshalObject :: "string \<Rightarrow> error + jmap"
  unmarshalResults :: "string \<Rightarrow> error + GeocodingResult list"
  parseFloat :: "string \<Rightarrow> error + float64"
  queryEscape :: "string \<Rightarrow> string"

section \<open>weather.go\<close>

definition NWSAPIBase :: string where
  "NWSAPIBase = ''https://api.weather.gov''"

definition StatusOK :: int where
  "StatusOK = 200"

text \<open>\<open>makeNWSRequest\<close>: the two request headers are fixed and not seen by the stub.\<close>

definition makeNWSRequest :: "platform \<Rightarrow> string \<Rightarrow> error + jmap" where
  "makeNWSRequest p url =
     (case roundTrip p url of
        Inl err \<Rightarrow> Inl err
      | Inr resp \<Rightarrow>
          if StatusCode resp \<noteq> StatusOK
          then Inl (''API request failed with status: '' @ showInt (StatusCode resp))
          else (case Body resp of
                  Inl err \<Rightarrow> Inl err
                | Inr body \<Rightarrow>
                    (case unmarshalObject p body of
                       Inl err \<Rightarrow> Inl err
                     | Inr result \<Rightarrow> Inr result)))"

definition orDefault :: "string \<Rightarrow> string \<Rightarrow> string" where
  "orDefault s d = (if s = [] then d else s)"

definition formatAlert :: "jmap \<Rightarrow> string" where
  "formatAlert feature =
     (case asMap (feature ''properties'') of
        None \<Rightarrow> ''Error: Invalid alert format''
      | Some props \<Rightarrow>
          (let event = orDefault (stringOrZero (props ''event'')) ''Unknown'';
               areaDesc = orDefault (stringOrZero (props ''areaDesc'')) ''Unknown'';
               severity = orDefault (stringOrZero (props ''severity'')) ''Unknown'';
               description =
                 orDefault (stringOrZero (props ''description'')) ''No description available'';
               instruction =
                 orDefault (stringOrZero (props ''instruction''))
                   ''No specific instructions provided''
           in NL @ ''Event: '' @ event @ NL @
              ''Area: '' @ areaDesc @ NL @
              ''Severity: '' @ severity @ NL @
              ''Description: '' @ description @ NL @
              ''Instructions: '' @ instruction @ NL))"

definition blockSep :: string where
  "blockSep = NL @ ''---'' @ NL"

text \<open>The loop of \<open>GetAlerts\<close> over the features, appending to \<open>alerts\<close>.\<close>

fun alertsLoop :: "json list \<Rightarrow> string list \<Rightarrow> string list" where
  "alertsLoop [] alerts = alerts"
| "alertsLoop (f # fs) alerts =
     (case asMap (Some f) of
        Some feature \<Rightarrow> alertsLoop fs (alerts @ [formatAlert feature])
      | None \<Rightarrow> alertsLoop fs alerts)"

definition alertsURL :: "string \<Rightarrow> string" where
  "alertsURL state = NWSAPIBase @ ''/alerts/active/area/'' @ state"

definition GetAlerts :: "platform \<Rightarrow> string \<Rightarrow> string \<times> error option" where
  "GetAlerts p state =
     (case makeNWSRequest p (alertsURL state) of
        Inl err \<Rightarrow> (''Unable to fetch alerts.'', Some err)
      | Inr data \<Rightarrow>
          (case asList (data ''features'') of
             None \<Rightarrow> (''No alerts found or invalid response format.'', None)
           | Some features \<Rightarrow>
               if length features = 0 then (''No active alerts for this state.'', None)
               else (strings_Join (alertsLoop features []) blockSep, None)))"

text \<open>The loop of \<open>GetForecast\<close> over the periods, appending to \<open>forecasts\<close>.\<close>

definition degreeSign :: string where
  "degreeSign = [CHR 0xC2, CHR 0xB0]"

fun forecastLoop :: "json list \<Rightarrow> string list \<Rightarrow> string list" where
  "forecastLoop [] forecasts = forecasts"
| "forecastLoop (p # ps) forecasts =
     (case asMap (Some p) of
        None \<Rightarrow> forecastLoop ps forecasts
      | Some period \<Rightarrow>
          (let name = stringOrZero (period ''name'');
               temperature = floatOrZero (period ''temperature'');
               temperatureUnit = stringOrZero (period ''temperatureUnit'');
               windSpeed = stringOrZero (period ''windSpeed'');
               windDirection = stringOrZero (period ''windDirection'');
               detailedForecast = stringOrZero (period ''detailedForecast'');
               forecast =
                 NL @ name @ '':'' @ NL @
                 ''Temperature: '' @ fmtFloat 0 temperature @ degreeSign @ temperatureUnit @ NL @
                 ''Wind: '' @ windSpeed @ '' '' @ windDirection @ NL @
                 ''Forecast: '' @ detailedForecast @ NL
           in forecastLoop ps (forecasts @ [forecast])))"

definition pointsURL :: "float64 \<Rightarrow> float64 \<Rightarrow> string" where
  "pointsURL latitude longitude =
     NWSAPIBase @ ''/points/'' @ fmtFloat 6 latitude @ '','' @ fmtFloat 6 longitude"

definition GetForecast :: "platform \<Rightarrow> float64 \<Rightarrow> float64 \<Rightarrow> string \<times> error option" where
  "GetForecast p latitude longitude =
     (case makeNWSRequest p (pointsURL latitude longitude) of
        Inl err \<Rightarrow> (''Unable to fetch forecast data for this location.'', Some err)
      | Inr pointsData \<Rightarrow>
     (case asMap (pointsData ''properties'') of
        None \<Rightarrow> (''Invalid response format from weather API.'', None)
      | Some properties \<Rightarrow>
     (case asString (properties ''forecast'') of
        None \<Rightarrow> (''Unable to retrieve forecast URL.'', None)
      | Some forecastURL \<Rightarrow>
     (case makeNWSRequest p forecastURL of
        Inl err \<Rightarrow> (''Unable to fetch detailed forecast.'', Some err)
      | Inr forecastData \<Rightarrow>
     (case asMap (forecastData ''properties'') of
        None \<Rightarrow> (''Invalid forecast data format.'', None)
      | Some forecastProps \<Rightarrow>
     (case asList (forecastProps ''periods'') of
        None \<Rightarrow> (''Invalid forecast periods data.'', None)
      | Some periods \<Rightarrow> (strings_Join (forecastLoop periods []) blockSep, None)))))))"

text \<open>
  \<open>GeocodeCity\<close>: \<open>http.NewRequest\<close> is called on the constant base URL, the query is
  attached afterwards; \<open>Encode\<close> writes the parameters sorted by key, and only the value
  of \<open>q\<close> has bytes to escape. The three results are returned together, zero coordinates
  with every error.
\<close>

definition geocodeQuery :: "string \<Rightarrow> string \<Rightarrow> string" where
  "geocodeQuery city state = (if state \<noteq> [] then city @ '', '' @ state else city)"

definition geocodeURL :: "platform \<Rightarrow> string \<Rightarrow> string" where
  "geocodeURL p query =
     ''https://nominatim.openstreetmap.org/search'' @ ''?'' @
     ''format=json&limit=1&q='' @ queryEscape p query"

definition GeocodeCity :: "platform \<Rightarrow> string \<Rightarrow> string \<Rightarrow> float64 \<times> float64 \<times> error option" where
  "GeocodeCity p city state =
     (let query = geocodeQuery city state in
      case roundTrip p (geocodeURL p query) of
        Inl err \<Rightarrow> (Finite 0, Finite 0, Some err)
      | Inr resp \<Rightarrow>
          if StatusCode resp \<noteq> StatusOK
          then (Finite 0, Finite 0,
                Some (''geocoding request failed with status: '' @ showInt (StatusCode resp)))
          else
     (case Body resp of
        Inl err \<Rightarrow> (Finite 0, Finite 0, Some err)
      | Inr body \<Rightarrow>
     (case unmarshalResults p body of
        Inl err \<Rightarrow> (Finite 0, Finite 0, Some err)
      | Inr results \<Rightarrow>
          if length results = 0
          then (Finite 0, Finite 0, Some (''no results found for location: '' @ query))
          else
     (case parseFloat p (Lat (results ! 0)) of
        Inl err \<Rightarrow> (Finite 0, Finite 0, Some err)
      | Inr lat \<Rightarrow>
     (case parseFloat p (Lon (results ! 0)) of
        Inl err \<Rightarrow> (Finite 0, Finite 0, Some err)
      | Inr lon \<Rightarrow> (lat, lon, None))))))"

subsection \<open>The handler of \<open>/forecast\<close>\<close>

text \<open>
  Of the inbound request the handler reads the method and the query parameters
  (\<open>url.Values.Get\<close>: the first value of the key, the empty string when there is none).
  What it does to the \<open>ResponseWriter\<close> is the reply: status code, headers set, bytes
  written. \<open>http.Error\<close> sets two headers and writes the message and a newline.
\<close>

record request =
  Method :: string
  Query :: "(string \<times> string) list"

record reply =
  Code :: int
  Header :: "(string \<times> string) list"
  Written :: string

definition queryGet :: "request \<Rightarrow> string \<Rightarrow> string" where
  "queryGet r k = (case map_of (Query r) k of Some v \<Rightarrow> v | None \<Rightarrow> [])"

definition http_Error :: "string \<Rightarrow> int \<Rightarrow> reply" where
  "http_Error msg code =
     \<lparr>Code = code,
      Header = [(''Content-Type'', ''text/plain; charset=utf-8''),
                (''X-Content-Type-Options'', ''nosniff'')],
      Written = msg @ NL\<rparr>"

definition HandleForecast :: "platform \<Rightarrow> request \<Rightarrow> reply" where
  "HandleForecast p r =
     (if Method r \<noteq> ''GET'' then http_Error ''Method not allowed'' 405
      else
        (let latStr = queryGet r ''lat''; lonStr = queryGet r ''lon'' in
         if latStr = [] \<or> lonStr = []
         then http_Error ''Latitude and longitude parameters are required'' 400
         else
           (case parseFloat p latStr of
              Inl err \<Rightarrow> http_Error ''Invalid latitude value'' 400
            | Inr lat \<Rightarrow>
           (case parseFloat p lonStr of
              Inl err \<Rightarrow> http_Error ''Invalid longitude value'' 400
            | Inr lon \<Rightarrow>
           (case GetForecast p lat lon of
              (forecast, Some err) \<Rightarrow> http_Error (''Error fetching forecast: '' @ err) 500
            | (forecast, None) \<Rightarrow>
                \<lparr>Code = 200, Header = [(''Content-Type'', ''text/plain'')],
                 Written = forecast\<rparr>)))))"

section \<open>What the specification says, for comparison with the code\<close>

text \<open>The map-shaped elements of a decoded list, in list order.\<close>

fun objectsOf :: "json list \<Rightarrow> jmap list" where
  "objectsOf [] = []"
| "objectsOf (JObj m # rest) = m # objectsOf rest"
| "objectsOf (_ # rest) = objectsOf rest"

text \<open>
  An alert field read defensively: the string under the key, and the placeholder of the
  field when the key is missing, its value is not a string, or the string is empty.
\<close>

definition alertField :: "jmap \<Rightarrow> string \<Rightarrow> string \<Rightarrow> string" where
  "alertField props k placeholder =
     (case props k of
        Some (JStr s) \<Rightarrow> if s = [] then placeholder else s
      | _ \<Rightarrow> placeholder)"

text \<open>A period field: the value under the key, the zero value when it is missing.\<close>

definition textField :: "jmap \<Rightarrow> string \<Rightarrow> string" where
  "textField m k = (case m k of Some (JStr s) \<Rightarrow> s | _ \<Rightarrow> [])"

definition numberField :: "jmap \<Rightarrow> string \<Rightarrow> float64" where
  "numberField m k = (case m k of Some (JNum x) \<Rightarrow> x | _ \<Rightarrow> Finite 0)"

text \<open>
  The block of one period: its name, the temperature without fraction digits followed by
  the degree sign and the unit, wind speed and direction, and the narrative.
\<close>

definition periodBlock :: "jmap \<Rightarrow> string" where
  "periodBlock m =
     NL @ textField m ''name'' @ '':'' @ NL @
     ''Temperature: '' @ fmtFloat 0 (numberField m ''temperature'') @ degreeSign @
       textField m ''temperatureUnit'' @ NL @
     ''Wind: '' @ textField m ''windSpeed'' @ '' '' @ textField m ''windDirection'' @ NL @
     ''Forecast: '' @ textField m ''detailedForecast'' @ NL"

section \<open>Stubbed upstreams\<close>

text \<open>
  Platforms with a fixed upstream, used to run the program on concrete inputs. The
  decoders are tables: the stub of the upstream names the document in the body, and the
  decoder returns the tree of that document.
\<close>

definition stubParseFloat :: "string \<Rightarrow> error + float64" where
  "stubParseFloat s =
     (if s = ''40.5'' then Inr (Finite (81 / 2))
      else if s = ''-75'' then Inr (Finite (- 75))
      else Inl (''strconv.ParseFloat: parsing '' @ [CHR 0x22] @ s @ [CHR 0x22] @
                  '': invalid syntax''))"

definition stubQueryEscape :: "string \<Rightarrow> string" where
  "stubQueryEscape s = (if s = ''Springfield, IL'' then ''Springfield%2C+IL'' else s)"

definition noObject :: jmap where
  "noObject = Map.empty"

definition okResponse :: "string \<Rightarrow> response" where
  "okResponse b = \<lparr>StatusCode = 200, Body = Inr b\<rparr>"

definition exampleForecastURL :: string where
  "exampleForecastURL = ''https://api.weather.gov/gridpoints/PHI/49,75/forecast''"

text \<open>
  Every URL answers 200; the forecast URL answers with the forecast document, every
  other URL with the first document.
\<close>

definition stubPlatform :: "jmap \<Rightarrow> jmap \<Rightarrow> GeocodingResult list \<Rightarrow> platform" where
  "stubPlatform doc forecastDoc results =
     \<lparr>roundTrip =
        (\<lambda>url. Inr (okResponse (if url = exampleForecastURL then ''forecast'' else ''first''))),
      unmarshalObject = (\<lambda>body. Inr (if body = ''forecast'' then forecastDoc else doc)),
      unmarshalResults = (\<lambda>body. Inr results),
      parseFloat = stubParseFloat,
      queryEscape = stubQueryEscape\<rparr>"

text \<open>An upstream that answers every request with the given status and an empty body.\<close>

definition statusPlatform :: "int \<Rightarrow> platform" where
  "statusPlatform code =
     \<lparr>roundTrip = (\<lambda>url. Inr \<lparr>StatusCode = code, Body = Inr []\<rparr>),
      unmarshalObject = (\<lambda>body. Inl ''unexpected end of JSON input''),
      unmarshalResults = (\<lambda>body. Inl ''unexpected end of JSON input''),
      parseFloat = stubParseFloat,
      queryEscape = stubQueryEscape\<rparr>"

definition forecastRequest :: request where
  "forecastRequest = \<lparr>Method = ''GET'', Query = [(''lat'', ''40.5''), (''lon'', ''-75'')]\<rparr>"

text \<open>Example documents.\<close>

definition stormProps :: jmap where
  "stormProps =
     [''event'' \<mapsto> JStr ''Flood Warning'', ''areaDesc'' \<mapsto> JStr ''Kern'',
      ''description'' \<mapsto> JStr [], ''instruction'' \<mapsto> JNum (Finite 7)]"

definition stormFeature :: jmap where
  "stormFeature = [''properties'' \<mapsto> JObj stormProps]"

definition alertsDoc :: "json list \<Rightarrow> jmap" where
  "alertsDoc features = [''features'' \<mapsto> JArr features]"

definition pointsDoc :: jmap where
  "pointsDoc = [''properties'' \<mapsto> JObj [''forecast'' \<mapsto> JStr exampleForecastURL]]"

definition tonight :: jmap where
  "tonight =
     [''name'' \<mapsto> JStr ''Tonight'', ''temperature'' \<mapsto> JNum (Finite (145 / 2)),
      ''temperatureUnit'' \<mapsto> JStr ''F'', ''windSpeed'' \<mapsto> JStr ''5 mph'',
      ''detailedForecast'' \<mapsto> JStr ''Clear.'']"

definition periodsDoc :: "json list \<Rightarrow> jmap" where
  "periodsDoc periods = [''properties'' \<mapsto> JObj [''periods'' \<mapsto> JArr periods]]"

section \<open>Lemmas about the model\<close>

lemma stringOrZero_textField: "stringOrZero (m k) = textField m k"
  by (cases "m k" rule: asString.cases) (simp_all add: stringOrZero_def textField_def)

lemma floatOrZero_numberField: "floatOrZero (m k) = numberField m k"
  by (cases "m k" rule: asFloat.cases) (simp_all add: floatOrZero_def numberField_def)

lemma orDefault_alertField:
  "orDefault (stringOrZero (props k)) d = alertField props k d"
  by (cases "props k" rule: asString.cases)
     (simp_all add: stringOrZero_def orDefault_def alertField_def)

lemma alertsLoop_eq: "alertsLoop fs acc = acc @ map formatAlert (objectsOf fs)"
  by (induction fs arbitrary: acc rule: objectsOf.induct) simp_all

lemma forecastLoop_eq: "forecastLoop ps acc = acc @ map periodBlock (objectsOf ps)"
  by (induction ps arbitrary: acc rule: objectsOf.induct)
     (simp_all add: Let_def periodBlock_def stringOrZero_textField floatOrZero_numberField)

lemma objectsOf_none: "\<forall>f\<in>set fs. asMap (Some f) = None \<Longrightarrow> objectsOf fs = []"
  by (induction fs rule: objectsOf.induct) simp_all

lemma objectsOf_all:
  "\<forall>f\<in>set fs. asMap (Some f) \<noteq> None \<Longrightarrow> length (objectsOf fs) = length fs"
  by (induction fs rule: objectsOf.induct) simp_all

lemma formatAlert_fields:
  "asMap (feature ''properties'') = Some props \<Longrightarrow>
   formatAlert feature =
     NL @ ''Event: '' @ alertField props ''event'' ''Unknown'' @ NL @
     ''Area: '' @ alertField props ''areaDesc'' ''Unknown'' @ NL @
     ''Severity: '' @ alertField props ''severity'' ''Unknown'' @ NL @
     ''Description: '' @ alertField props ''description'' ''No description available'' @ NL @
     ''Instructions: '' @
       alertField props ''instruction'' ''No specific instructions provided'' @ NL"
  by (simp add: formatAlert_def Let_def orDefault_alertField)

lemma showInt_503: "showInt 503 = ''503''"
  by (simp add: showInt_def showNat.simps digitChar_def)

lemma roundHalfEven_near: "\<bar>of_int (roundHalfEven y) - y\<bar> \<le> 1 / 2"
proof -
  have "of_int \<lfloor>y\<rfloor> \<le> y" and "y < of_int \<lfloor>y\<rfloor> + 1"
    by linarith+
  then show ?thesis
    unfolding roundHalfEven_def Let_def by (simp add: abs_if) linarith
qed

lemma fmtFloat_0_Finite:
  "fmtFloat 0 (Finite x) = (if x < 0 then ''-'' else []) @ showNat (nat (roundHalfEven \<bar>x\<bar>))"
  by (simp add: fmtDigits_def)

lemma stub_request:
  "makeNWSRequest (stubPlatform doc fdoc rs) url =
     Inr (if url = exampleForecastURL then fdoc else doc)"
  by (simp add: makeNWSRequest_def stubPlatform_def okResponse_def StatusOK_def)


lemma stub_points:
  "makeNWSRequest (stubPlatform doc fdoc rs) (pointsURL (Finite (81 / 2)) (Finite (- 75))) =
     Inr doc"
  by (simp add: stub_request pointsURL_def exampleForecastURL_def NWSAPIBase_def)

section \<open>Alerts\<close>

text \<open>
  Claim C1 as stated, one block for every element of the features list, fails on a list
  with an element that is not a map: the loop of \<open>GetAlerts\<close> skips such an element.
  For the two-element list of a string and an alert the output is the single block of
  the alert, and it holds no separator.
\<close>

theorem GetAlerts_two_elements_one_block_counterexample:
  "length [JStr ''x'', JObj stormFeature] = 2 \<and>
   GetAlerts (stubPlatform (alertsDoc [JStr ''x'', JObj stormFeature]) noObject []) ''CA'' =
     (formatAlert stormFeature, None) \<and>
   \<not> sublist blockSep (formatAlert stormFeature)"
  by (simp add: GetAlerts_def stub_request exampleForecastURL_def alertsURL_def NWSAPIBase_def
      alertsDoc_def formatAlert_def stormFeature_def stormProps_def stringOrZero_def
      orDefault_def blockSep_def sublist_code)

text \<open>
  Claim C1, amended: when the features list is present and not empty, \<open>GetAlerts\<close> returns,
  with a nil error, the formatted blocks of the map-shaped elements of the list, in list
  order, joined by the separator line; whatever fields a feature lacks. There is one
  block for every element when every element is a map.
\<close>

theorem GetAlerts_blocks:
  assumes "makeNWSRequest p (alertsURL state) = Inr data"
    and "asList (data ''features'') = Some features"
    and "features \<noteq> []"
  shows "GetAlerts p state =
           (strings_Join (map formatAlert (objectsOf features)) blockSep, None) \<and>
         length (objectsOf features) \<le> length features \<and>
         ((\<forall>f\<in>set features. asMap (Some f) \<noteq> None) \<longrightarrow>
            length (map formatAlert (objectsOf features)) = length features)"
proof -
  have "length (objectsOf fs) \<le> length fs" for fs
    by (induction fs rule: objectsOf.induct) simp_all
  with assms show ?thesis
    by (simp add: GetAlerts_def alertsLoop_eq objectsOf_all)
qed

theorem GetAlerts_blocks_witness:
  "GetAlerts (stubPlatform (alertsDoc [JObj stormFeature, JNull, JObj noObject]) noObject [])
     ''CA'' =
     (formatAlert stormFeature @ blockSep @ formatAlert noObject, None) \<and>
   GetAlerts (stubPlatform (alertsDoc [JObj stormFeature, JObj noObject]) noObject [])
     ''CA'' =
     (formatAlert stormFeature @ blockSep @ formatAlert noObject, None) \<and>
   length (map formatAlert (objectsOf [JObj stormFeature, JObj noObject])) = 2"
proof -
  have url: "alertsURL ''CA'' \<noteq> exampleForecastURL"
    by (simp add: alertsURL_def exampleForecastURL_def NWSAPIBase_def)
  have req: "makeNWSRequest (stubPlatform (alertsDoc fs) noObject []) (alertsURL ''CA'') =
               Inr (alertsDoc fs)" for fs
    by (simp add: stub_request url)
  have fs: "asList (alertsDoc fs ''features'') = Some fs" for fs
    by (simp add: alertsDoc_def)
  show ?thesis
    using GetAlerts_blocks [OF req fs, of "[JObj stormFeature, JNull, JObj noObject]"]
      GetAlerts_blocks [OF req fs, of "[JObj stormFeature, JObj noObject]"]
    by simp
qed

text \<open>
  Claim C10: a features list that is not empty and holds no map-shaped element gives the
  empty string with a nil error, since the elements are skipped before joining.
\<close>

theorem GetAlerts_no_map_elements:
  assumes "makeNWSRequest p (alertsURL state) = Inr data"
    and "asList (data ''features'') = Some features"
    and "features \<noteq> []"
    and "\<forall>f\<in>set features. asMap (Some f) = None"
  shows "GetAlerts p state = ([], None)"
  using assms by (simp add: GetAlerts_def alertsLoop_eq objectsOf_none)

theorem GetAlerts_no_map_elements_witness:
  "GetAlerts (stubPlatform (alertsDoc [JStr ''x'', JNull, JNum (Finite 3)]) noObject []) ''CA'' =
     ([], None)"
proof -
  have url: "alertsURL ''CA'' \<noteq> exampleForecastURL"
    by (simp add: alertsURL_def exampleForecastURL_def NWSAPIBase_def)
  have req: "makeNWSRequest (stubPlatform (alertsDoc fs) noObject []) (alertsURL ''CA'') =
               Inr (alertsDoc fs)" for fs
    by (simp add: stub_request url)
  have fs: "asList (alertsDoc fs ''features'') = Some fs" for fs
    by (simp add: alertsDoc_def)
  show ?thesis
    using GetAlerts_no_map_elements [OF req fs, of "[JStr ''x'', JNull, JNum (Finite 3)]"]
    by simp
qed

text \<open>
  Claim C4: a decoded response without a features list gives the fixed "no alerts found"
  message, a present and empty list gives the fixed "no active alerts" message and not the
  join of an empty list of blocks; both with a nil error.
\<close>

theorem GetAlerts_no_alerts:
  assumes "makeNWSRequest p (alertsURL state) = Inr data"
  shows "(asList (data ''features'') = None \<longrightarrow>
            GetAlerts p state = (''No alerts found or invalid response format.'', None)) \<and>
         (asList (data ''features'') = Some [] \<longrightarrow>
            GetAlerts p state = (''No active alerts for this state.'', None) \<and>
            GetAlerts p state \<noteq> (strings_Join [] blockSep, None))"
  using assms by (simp add: GetAlerts_def)

theorem GetAlerts_no_alerts_witness:
  "GetAlerts (stubPlatform noObject noObject []) ''CA'' =
     (''No alerts found or invalid response format.'', None) \<and>
   GetAlerts (stubPlatform [''features'' \<mapsto> JStr ''none''] noObject []) ''CA'' =
     (''No alerts found or invalid response format.'', None) \<and>
   GetAlerts (stubPlatform (alertsDoc []) noObject []) ''CA'' =
     (''No active alerts for this state.'', None)"
proof -
  have url: "alertsURL ''CA'' \<noteq> exampleForecastURL"
    by (simp add: alertsURL_def exampleForecastURL_def NWSAPIBase_def)
  have req: "makeNWSRequest (stubPlatform doc noObject []) (alertsURL ''CA'') = Inr doc" for doc
    by (simp add: stub_request url)
  show ?thesis
    using GetAlerts_no_alerts [OF req, of noObject]
      GetAlerts_no_alerts [OF req, of "[''features'' \<mapsto> JStr ''none'']"]
      GetAlerts_no_alerts [OF req, of "alertsDoc []"]
    by (simp add: noObject_def alertsDoc_def)
qed


section \<open>Alert blocks\<close>

text \<open>
  Claim C6: a feature whose properties map has no severity key renders the line
  "Severity: Unknown"; each of the five fields that is missing or not a string is
  rendered as the placeholder of the field, and the block is always produced.
\<close>

theorem formatAlert_placeholders:
  assumes "asMap (feature ''properties'') = Some props"
  shows "formatAlert feature =
           NL @ ''Event: '' @ alertField props ''event'' ''Unknown'' @ NL @
           ''Area: '' @ alertField props ''areaDesc'' ''Unknown'' @ NL @
           ''Severity: '' @ alertField props ''severity'' ''Unknown'' @ NL @
           ''Description: '' @
             alertField props ''description'' ''No description available'' @ NL @
           ''Instructions: '' @
             alertField props ''instruction'' ''No specific instructions provided'' @ NL \<and>
         (props ''severity'' = None \<longrightarrow>
            sublist (NL @ ''Severity: Unknown'' @ NL) (formatAlert feature)) \<and>
         (\<forall>k d. asString (props k) = None \<longrightarrow> alertField props k d = d)"
proof -
  define before where "before =
    NL @ ''Event: '' @ alertField props ''event'' ''Unknown'' @ NL @
    ''Area: '' @ alertField props ''areaDesc'' ''Unknown''"
  define after where "after =
    ''Description: '' @ alertField props ''description'' ''No description available'' @ NL @
    ''Instructions: '' @
      alertField props ''instruction'' ''No specific instructions provided'' @ NL"
  have fields: "formatAlert feature =
      before @ (NL @ ''Severity: '' @ alertField props ''severity'' ''Unknown'' @ NL) @ after"
    using assms by (simp add: formatAlert_fields before_def after_def)
  have "sublist (NL @ ''Severity: Unknown'' @ NL) (formatAlert feature)"
    if "props ''severity'' = None"
  proof -
    have "alertField props ''severity'' ''Unknown'' = ''Unknown''"
      using that by (simp add: alertField_def)
    then have "formatAlert feature = before @ (NL @ ''Severity: Unknown'' @ NL) @ after"
      using fields by simp
    then show ?thesis
      by (simp only: sublist_appendI)
  qed
  moreover have "alertField props k d = d" if "asString (props k) = None" for k d
    using that by (cases "props k" rule: asString.cases) (simp_all add: alertField_def)
  ultimately show ?thesis
    using assms by (simp add: formatAlert_fields)
qed

theorem formatAlert_placeholders_witness:
  "formatAlert stormFeature =
     NL @ ''Event: Flood Warning'' @ NL @ ''Area: Kern'' @ NL @ ''Severity: Unknown'' @ NL @
     ''Description: No description available'' @ NL @
     ''Instructions: No specific instructions provided'' @ NL \<and>
   sublist (NL @ ''Severity: Unknown'' @ NL) (formatAlert stormFeature) \<and>
   alertField stormProps ''severity'' ''Unknown'' = ''Unknown'' \<and>
   alertField stormProps ''instruction'' ''No specific instructions provided'' =
     ''No specific instructions provided''"
proof -
  have props: "asMap (stormFeature ''properties'') = Some stormProps"
    by (simp add: stormFeature_def)
  have sev: "stormProps ''severity'' = None"
    by (simp add: stormProps_def)
  have ins: "asString (stormProps ''instruction'') = None"
    by (simp add: stormProps_def)
  note block = formatAlert_placeholders [of stormFeature stormProps, OF props]
  from block have "formatAlert stormFeature =
     NL @ ''Event: Flood Warning'' @ NL @ ''Area: Kern'' @ NL @ ''Severity: Unknown'' @ NL @
     ''Description: No description available'' @ NL @
     ''Instructions: No specific instructions provided'' @ NL"
    by (simp add: alertField_def stormProps_def)
  moreover from block sev
  have "sublist (NL @ ''Severity: Unknown'' @ NL) (formatAlert stormFeature)"
    by blast
  moreover from block sev have "alertField stormProps ''severity'' ''Unknown'' = ''Unknown''"
    by simp
  moreover from block ins
  have "alertField stormProps ''instruction'' ''No specific instructions provided'' =
          ''No specific instructions provided''"
    by blast
  ultimately show ?thesis
    by blast
qed

text \<open>
  Claim C9: a field that is present with the empty string renders as the field does when
  it is absent: the placeholder is substituted in both cases. The key \<open>k\<close> is any key,
  so any of the five fields.
\<close>

theorem formatAlert_empty_as_absent:
  "formatAlert (feature(''properties'' \<mapsto> JObj (props(k \<mapsto> JStr [])))) =
   formatAlert (feature(''properties'' \<mapsto> JObj (props(k := None)))) \<and>
   formatAlert (feature(''properties'' \<mapsto> JObj (props(k \<mapsto> JStr [])))) =
     NL @ ''Event: '' @ alertField (props(k \<mapsto> JStr [])) ''event'' ''Unknown'' @ NL @
     ''Area: '' @ alertField (props(k \<mapsto> JStr [])) ''areaDesc'' ''Unknown'' @ NL @
     ''Severity: '' @ alertField (props(k \<mapsto> JStr [])) ''severity'' ''Unknown'' @ NL @
     ''Description: '' @
       alertField (props(k \<mapsto> JStr [])) ''description'' ''No description available'' @ NL @
     ''Instructions: '' @
       alertField (props(k \<mapsto> JStr [])) ''instruction''
         ''No specific instructions provided'' @ NL \<and>
   (\<forall>d. alertField (props(k \<mapsto> JStr [])) k d = d \<and> alertField (props(k := None)) k d = d)"
proof -
  have "alertField (props(k \<mapsto> JStr [])) j d = alertField (props(k := None)) j d" for j d
    by (simp add: alertField_def)
  then show ?thesis
    by (simp add: formatAlert_fields) (simp add: alertField_def)
qed

section \<open>Forecast\<close>

text \<open>
  Claim C3: when the points response has no properties map, or no forecast URL string in
  it, and when the forecast response has no properties map or no periods list in it,
  \<open>GetForecast\<close> returns a text of its own for the case, with a nil error. The four texts
  are pairwise different.
\<close>

theorem GetForecast_soft_failures:
  assumes "makeNWSRequest p (pointsURL latitude longitude) = Inr pointsData"
  shows "(asMap (pointsData ''properties'') = None \<longrightarrow>
            GetForecast p latitude longitude =
              (''Invalid response format from weather API.'', None)) \<and>
         (\<forall>properties.
            asMap (pointsData ''properties'') = Some properties \<and>
            asString (properties ''forecast'') = None \<longrightarrow>
            GetForecast p latitude longitude = (''Unable to retrieve forecast URL.'', None)) \<and>
         (\<forall>properties forecastURL forecastData.
            asMap (pointsData ''properties'') = Some properties \<and>
            asString (properties ''forecast'') = Some forecastURL \<and>
            makeNWSRequest p forecastURL = Inr forecastData \<and>
            asMap (forecastData ''properties'') = None \<longrightarrow>
            GetForecast p latitude longitude = (''Invalid forecast data format.'', None)) \<and>
         (\<forall>properties forecastURL forecastData forecastProps.
            asMap (pointsData ''properties'') = Some properties \<and>
            asString (properties ''forecast'') = Some forecastURL \<and>
            makeNWSRequest p forecastURL = Inr forecastData \<and>
            asMap (forecastData ''properties'') = Some forecastProps \<and>
            asList (forecastProps ''periods'') = None \<longrightarrow>
            GetForecast p latitude longitude = (''Invalid forecast periods data.'', None)) \<and>
         distinct [''Invalid response format from weather API.'',
                   ''Unable to retrieve forecast URL.'',
                   ''Invalid forecast data format.'',
                   ''Invalid forecast periods data.'']"
  using assms by (simp add: GetForecast_def)

theorem GetForecast_soft_failures_witness:
  "GetForecast (stubPlatform noObject noObject []) (Finite (81 / 2)) (Finite (- 75)) =
     (''Invalid response format from weather API.'', None) \<and>
   GetForecast (stubPlatform [''properties'' \<mapsto> JObj noObject] noObject [])
       (Finite (81 / 2)) (Finite (- 75)) =
     (''Unable to retrieve forecast URL.'', None) \<and>
   GetForecast (stubPlatform pointsDoc noObject []) (Finite (81 / 2)) (Finite (- 75)) =
     (''Invalid forecast data format.'', None) \<and>
   GetForecast (stubPlatform pointsDoc [''properties'' \<mapsto> JObj noObject] [])
       (Finite (81 / 2)) (Finite (- 75)) =
     (''Invalid forecast periods data.'', None)"
proof -
  have "GetForecast (stubPlatform noObject noObject []) (Finite (81 / 2)) (Finite (- 75)) =
     (''Invalid response format from weather API.'', None)"
    using GetForecast_soft_failures [OF stub_points, of noObject noObject "[]"]
    by (simp add: noObject_def)
  moreover
  have "GetForecast (stubPlatform [''properties'' \<mapsto> JObj noObject] noObject [])
       (Finite (81 / 2)) (Finite (- 75)) =
     (''Unable to retrieve forecast URL.'', None)"
    using GetForecast_soft_failures
      [OF stub_points, of "[''properties'' \<mapsto> JObj noObject]" noObject "[]"]
    by (simp add: noObject_def)
  moreover
  have "GetForecast (stubPlatform pointsDoc noObject []) (Finite (81 / 2)) (Finite (- 75)) =
     (''Invalid forecast data format.'', None)"
    using GetForecast_soft_failures [OF stub_points, of pointsDoc noObject "[]"]
    by (simp add: pointsDoc_def stub_request noObject_def)
  moreover
  have "GetForecast (stubPlatform pointsDoc [''properties'' \<mapsto> JObj noObject] [])
       (Finite (81 / 2)) (Finite (- 75)) =
     (''Invalid forecast periods data.'', None)"
    using GetForecast_soft_failures
      [OF stub_points, of pointsDoc "[''properties'' \<mapsto> JObj noObject]" "[]"]
    by (simp add: pointsDoc_def stub_request noObject_def)
  ultimately show ?thesis
    by blast
qed

text \<open>
  Claim C5: for every periods list \<open>GetForecast\<close> returns the blocks of the periods, in
  the order of the list, joined by the separator line that holds "---". A block shows the
  name, the temperature rounded to an integer (to the nearest one, at most a half away)
  with its unit, wind speed and direction, and the narrative; a missing field shows as
  the empty string, a missing temperature as "0". The periods are the map-shaped elements
  of the list: the loop passes over an element that is not a map.
\<close>

theorem GetForecast_period_blocks:
  assumes "makeNWSRequest p (pointsURL latitude longitude) = Inr pointsData"
    and "asMap (pointsData ''properties'') = Some properties"
    and "asString (properties ''forecast'') = Some forecastURL"
    and "makeNWSRequest p forecastURL = Inr forecastData"
    and "asMap (forecastData ''properties'') = Some forecastProps"
    and "asList (forecastProps ''periods'') = Some periods"
  shows "GetForecast p latitude longitude =
           (strings_Join (map periodBlock (objectsOf periods)) blockSep, None) \<and>
         sublist ''---'' blockSep \<and>
         (\<forall>x. fmtFloat 0 (Finite x) =
                (if x < 0 then ''-'' else []) @ showNat (nat (roundHalfEven \<bar>x\<bar>)) \<and>
              \<bar>of_int (roundHalfEven \<bar>x\<bar>) - \<bar>x\<bar>\<bar> \<le> 1 / 2) \<and>
         (\<forall>m k. asString (m k) = None \<longrightarrow> textField m k = []) \<and>
         (\<forall>m k. asFloat (m k) = None \<longrightarrow> fmtFloat 0 (numberField m k) = ''0'')"
proof -
  have "sublist ''---'' (NL @ ''---'' @ NL)"
    by (rule sublist_appendI)
  then have sep: "sublist ''---'' blockSep"
    by (simp only: blockSep_def)
  have missing_text: "textField m k = []" if "asString (m k) = None" for m k
    using that by (cases "m k" rule: asString.cases) (simp_all add: textField_def)
  have zero: "fmtFloat 0 (Finite 0) = ''0''"
    by (simp add: fmtDigits_def roundHalfEven_def showNat.simps digitChar_def)
  have missing_number: "fmtFloat 0 (numberField m k) = ''0''" if "asFloat (m k) = None" for m k
    using that zero by (cases "m k" rule: asFloat.cases) (simp_all add: numberField_def)
  have "GetForecast p latitude longitude =
          (strings_Join (map periodBlock (objectsOf periods)) blockSep, None)"
    using assms by (simp add: GetForecast_def forecastLoop_eq)
  with sep missing_text missing_number show ?thesis
    using roundHalfEven_near fmtFloat_0_Finite by blast
qed


theorem GetForecast_period_blocks_witness:
  "GetForecast (stubPlatform pointsDoc (periodsDoc [JObj tonight, JNull, JObj noObject]) [])
     (Finite (81 / 2)) (Finite (- 75)) =
     (NL @ ''Tonight:'' @ NL @ ''Temperature: 72'' @ degreeSign @ ''F'' @ NL @
      ''Wind: 5 mph '' @ NL @ ''Forecast: Clear.'' @ NL @
      blockSep @
      NL @ '':'' @ NL @ ''Temperature: 0'' @ degreeSign @ NL @
      ''Wind:  '' @ NL @ ''Forecast: '' @ NL, None) \<and>
   textField tonight ''windDirection'' = [] \<and>
   fmtFloat 0 (numberField noObject ''temperature'') = ''0''"
proof -
  have props: "asMap (pointsDoc ''properties'') = Some [''forecast'' \<mapsto> JStr exampleForecastURL]"
    by (simp add: pointsDoc_def)
  have url: "asString ([''forecast'' \<mapsto> JStr exampleForecastURL] ''forecast'') =
               Some exampleForecastURL"
    by simp
  have req: "makeNWSRequest (stubPlatform pointsDoc (periodsDoc ps) []) exampleForecastURL =
               Inr (periodsDoc ps)" for ps
    by (simp add: stub_request)
  have fprops: "asMap (periodsDoc ps ''properties'') = Some [''periods'' \<mapsto> JArr ps]" for ps
    by (simp add: periodsDoc_def)
  have periods: "asList ([''periods'' \<mapsto> JArr ps] ''periods'') = Some ps" for ps
    by simp
  have wind: "asString (tonight ''windDirection'') = None"
    by (simp add: tonight_def)
  have temp: "asFloat (noObject ''temperature'') = None"
    by (simp add: noObject_def)
  have "\<lfloor>145 / 2 :: rat\<rfloor> = 72"
    by (rule floor_unique) simp_all
  then have "roundHalfEven (145 / 2) = 72"
    by (simp add: roundHalfEven_def)
  then have warm: "fmtFloat 0 (Finite (145 / 2)) = ''72''"
    by (simp add: fmtDigits_def showNat.simps digitChar_def)
  have zero: "fmtFloat 0 (Finite 0) = ''0''"
    by (simp add: fmtDigits_def roundHalfEven_def showNat.simps digitChar_def)
  note blocks =
    GetForecast_period_blocks [OF stub_points props url req fprops periods,
      of "[JObj tonight, JNull, JObj noObject]"]
  from blocks have "GetForecast
      (stubPlatform pointsDoc (periodsDoc [JObj tonight, JNull, JObj noObject]) [])
      (Finite (81 / 2)) (Finite (- 75)) =
      (periodBlock tonight @ blockSep @ periodBlock noObject, None)"
    by simp
  moreover have "periodBlock tonight =
      NL @ ''Tonight:'' @ NL @ ''Temperature: 72'' @ degreeSign @ ''F'' @ NL @
      ''Wind: 5 mph '' @ NL @ ''Forecast: Clear.'' @ NL"
    by (simp add: periodBlock_def textField_def numberField_def tonight_def warm
        del: fmtFloat.simps)
  moreover have "periodBlock noObject =
      NL @ '':'' @ NL @ ''Temperature: 0'' @ degreeSign @ NL @
      ''Wind:  '' @ NL @ ''Forecast: '' @ NL"
    by (simp add: periodBlock_def textField_def numberField_def noObject_def zero
        del: fmtFloat.simps)
  moreover from blocks wind have "textField tonight ''windDirection'' = []"
    by blast
  moreover from blocks temp have "fmtFloat 0 (numberField noObject ''temperature'') = ''0''"
    by blast
  ultimately show ?thesis
    by (simp del: fmtFloat.simps)
qed

section \<open>The handler\<close>

text \<open>
  Claim C2 as stated fails in its second half: with an upstream that answers 503 the
  handler replies 500, and the body is the prefix "Error fetching forecast: " followed by
  the text of the error. "Unable to fetch" does not occur in it.
\<close>

theorem HandleForecast_503_counterexample:
  "Code (HandleForecast (statusPlatform 503) forecastRequest) = 500 \<and>
   Written (HandleForecast (statusPlatform 503) forecastRequest) =
     ''Error fetching forecast: API request failed with status: 503'' @ NL \<and>
   \<not> sublist ''Unable to fetch''
         (Written (HandleForecast (statusPlatform 503) forecastRequest))"
  by (simp add: HandleForecast_def forecastRequest_def queryGet_def statusPlatform_def
      stubParseFloat_def GetForecast_def makeNWSRequest_def StatusOK_def showInt_503
      http_Error_def sublist_code)

text \<open>
  Claim C2, amended: when the upstream points call returns HTTP 503, the \<open>/forecast\<close>
  handler replies with status 500 and the body "Error fetching forecast: API request
  failed with status: 503" and a newline. The text "Unable to fetch forecast data for this
  location." is what \<open>GetForecast\<close> returns beside the error; the handler writes the
  error, not that text.
\<close>

theorem HandleForecast_upstream_503:
  assumes "Method r = ''GET''"
    and "queryGet r ''lat'' \<noteq> []" and "queryGet r ''lon'' \<noteq> []"
    and "parseFloat p (queryGet r ''lat'') = Inr lat"
    and "parseFloat p (queryGet r ''lon'') = Inr lon"
    and "roundTrip p (pointsURL lat lon) = Inr resp"
    and "StatusCode resp = 503"
  shows "GetForecast p lat lon =
           (''Unable to fetch forecast data for this location.'',
            Some ''API request failed with status: 503'') \<and>
         HandleForecast p r =
           http_Error ''Error fetching forecast: API request failed with status: 503'' 500 \<and>
         Code (HandleForecast p r) = 500 \<and>
         Written (HandleForecast p r) =
           ''Error fetching forecast: API request failed with status: 503'' @ NL"
proof -
  have "makeNWSRequest p (pointsURL lat lon) = Inl ''API request failed with status: 503''"
    using assms(6,7) by (simp add: makeNWSRequest_def StatusOK_def showInt_503)
  then have forecast: "GetForecast p lat lon =
      (''Unable to fetch forecast data for this location.'',
       Some ''API request failed with status: 503'')"
    by (simp add: GetForecast_def)
  then have "HandleForecast p r =
      http_Error ''Error fetching forecast: API request failed with status: 503'' 500"
    using assms(1-5) by (simp add: HandleForecast_def)
  with forecast show ?thesis
    by (simp add: http_Error_def)
qed

theorem HandleForecast_upstream_503_witness:
  "GetForecast (statusPlatform 503) (Finite (81 / 2)) (Finite (- 75)) =
     (''Unable to fetch forecast data for this location.'',
      Some ''API request failed with status: 503'') \<and>
   HandleForecast (statusPlatform 503) forecastRequest =
     \<lparr>Code = 500,
      Header = [(''Content-Type'', ''text/plain; charset=utf-8''),
                (''X-Content-Type-Options'', ''nosniff'')],
      Written = ''Error fetching forecast: API request failed with status: 503'' @ NL\<rparr>"
proof -
  have m: "Method forecastRequest = ''GET''"
    and la: "queryGet forecastRequest ''lat'' \<noteq> []"
    and lo: "queryGet forecastRequest ''lon'' \<noteq> []"
    and pla: "parseFloat (statusPlatform 503) (queryGet forecastRequest ''lat'') =
                Inr (Finite (81 / 2))"
    and plo: "parseFloat (statusPlatform 503) (queryGet forecastRequest ''lon'') =
                Inr (Finite (- 75))"
    by (simp_all add: forecastRequest_def queryGet_def statusPlatform_def stubParseFloat_def)
  have rt: "roundTrip (statusPlatform 503) url = Inr \<lparr>StatusCode = 503, Body = Inr []\<rparr>" for url
    by (simp add: statusPlatform_def)
  have st: "StatusCode \<lparr>StatusCode = 503, Body = Inr []\<rparr> = 503"
    by simp
  show ?thesis
    using HandleForecast_upstream_503 [OF m la lo pla plo rt st]
    by (simp add: http_Error_def)
qed

section \<open>Geocoding\<close>

text \<open>
  Claim C7: given a successful geocoding response (status 200, a readable body that
  decodes to a result list), \<open>GeocodeCity\<close> fails exactly when the list is empty or the
  latitude or longitude string of the first result does not parse. For the empty list the
  error text holds "no results found" and the query. Otherwise the result is the parsed
  coordinates of the first result, whatever follows it in the list.
\<close>

theorem GeocodeCity_first_result:
  assumes "roundTrip p (geocodeURL p (geocodeQuery city state)) = Inr resp"
    and "StatusCode resp = 200"
    and "Body resp = Inr body"
    and "unmarshalResults p body = Inr results"
  shows "(snd (snd (GeocodeCity p city state)) \<noteq> None \<longleftrightarrow>
            (case results of
               [] \<Rightarrow> True
             | first # rest \<Rightarrow>
                 isl (parseFloat p (Lat first)) \<or> isl (parseFloat p (Lon first)))) \<and>
         (results = [] \<longrightarrow>
            GeocodeCity p city state =
              (Finite 0, Finite 0,
               Some (''no results found for location: '' @ geocodeQuery city state)) \<and>
            sublist ''no results found''
              (''no results found for location: '' @ geocodeQuery city state) \<and>
            sublist (geocodeQuery city state)
              (''no results found for location: '' @ geocodeQuery city state)) \<and>
         (\<forall>first rest lat lon.
            results = first # rest \<and>
            parseFloat p (Lat first) = Inr lat \<and> parseFloat p (Lon first) = Inr lon \<longrightarrow>
            GeocodeCity p city state = (lat, lon, None))"
proof -
  have "sublist ''no results found'' (''no results found'' @ '' for location: '' @ q)" for q
    using sublist_appendI [of "''no results found''" "[]"] by simp
  then have found: "sublist ''no results found'' (''no results found for location: '' @ q)" for q
    by simp
  have query: "sublist q (''no results found for location: '' @ q)" for q :: string
    using sublist_appendI [of q "''no results found for location: ''" "[]"] by simp
  have fails: "snd (snd (GeocodeCity p city state)) \<noteq> None \<longleftrightarrow>
      (case results of
         [] \<Rightarrow> True
       | first # rest \<Rightarrow> isl (parseFloat p (Lat first)) \<or> isl (parseFloat p (Lon first)))"
    using assms
    by (cases results)
       (auto simp: GeocodeCity_def Let_def StatusOK_def split: sum.splits)
  have empty: "GeocodeCity p city state =
      (Finite 0, Finite 0, Some (''no results found for location: '' @ geocodeQuery city state))"
    if "results = []"
    using assms that by (simp add: GeocodeCity_def Let_def StatusOK_def)
  have ok: "GeocodeCity p city state = (lat, lon, None)"
    if "results = first # rest" "parseFloat p (Lat first) = Inr lat"
      "parseFloat p (Lon first) = Inr lon" for first rest lat lon
    using assms that by (simp add: GeocodeCity_def Let_def StatusOK_def)
  from fails empty ok found query show ?thesis
    by blast
qed

theorem GeocodeCity_first_result_witness:
  "GeocodeCity (stubPlatform noObject noObject []) ''Springfield'' ''IL'' =
     (Finite 0, Finite 0, Some ''no results found for location: Springfield, IL'') \<and>
   GeocodeCity
     (stubPlatform noObject noObject
        [\<lparr>Lat = ''40.5'', Lon = ''-75''\<rparr>, \<lparr>Lat = ''x'', Lon = ''y''\<rparr>])
     ''Springfield'' ''IL'' =
     (Finite (81 / 2), Finite (- 75), None) \<and>
   snd (snd (GeocodeCity
     (stubPlatform noObject noObject [\<lparr>Lat = ''40.5'', Lon = ''north''\<rparr>])
     ''Springfield'' ''IL'')) \<noteq> None"
proof -
  have rt: "roundTrip (stubPlatform noObject noObject rs)
              (geocodeURL (stubPlatform noObject noObject rs)
                 (geocodeQuery ''Springfield'' ''IL'')) = Inr (okResponse ''first'')" for rs
    by (simp add: stubPlatform_def geocodeURL_def stubQueryEscape_def geocodeQuery_def exampleForecastURL_def)
  have st: "StatusCode (okResponse ''first'') = 200"
    and bd: "Body (okResponse ''first'') = Inr ''first''"
    by (simp_all add: okResponse_def)
  have um: "unmarshalResults (stubPlatform noObject noObject rs) ''first'' = Inr rs" for rs
    by (simp add: stubPlatform_def)
  have pf: "parseFloat (stubPlatform noObject noObject rs) = stubParseFloat" for rs
    by (simp add: stubPlatform_def)
  note geo = GeocodeCity_first_result [OF rt st bd um]
  have "GeocodeCity (stubPlatform noObject noObject []) ''Springfield'' ''IL'' =
     (Finite 0, Finite 0, Some ''no results found for location: Springfield, IL'')"
    using geo [of "[]"] by (simp add: geocodeQuery_def)
  moreover
  have "GeocodeCity
     (stubPlatform noObject noObject
        [\<lparr>Lat = ''40.5'', Lon = ''-75''\<rparr>, \<lparr>Lat = ''x'', Lon = ''y''\<rparr>])
     ''Springfield'' ''IL'' =
     (Finite (81 / 2), Finite (- 75), None)"
    using geo [of "[\<lparr>Lat = ''40.5'', Lon = ''-75''\<rparr>, \<lparr>Lat = ''x'', Lon = ''y''\<rparr>]"]
    by (simp add: pf stubParseFloat_def)
  moreover
  have "snd (snd (GeocodeCity
     (stubPlatform noObject noObject [\<lparr>Lat = ''40.5'', Lon = ''north''\<rparr>])
     ''Springfield'' ''IL'')) \<noteq> None"
    using geo [of "[\<lparr>Lat = ''40.5'', Lon = ''north''\<rparr>]"]
    by (simp add: pf stubParseFloat_def)
  ultimately show ?thesis
    by blast
qed

end
